theory Spec2Isabelle
  imports Complex_Main "HOL-Library.Word"
begin

section \<open>The ndt7 clients: sink.Writer\<close>

text \<open>
  Go's \<open>error\<close> values are modelled by their message; a \<open>[]byte\<close> is a list of
  8-bit words.
\<close>

type_synonym error = string

type_synonym bytes = "8 word list"

text \<open>
  Modelled from the spec: the declaration of \<open>MeasureResult\<close> is not among the
  sources. \<open>Writer\<close> reads its fields \<open>Err\<close> (an error, \<open>nil\<close> is \<open>None\<close>) and
  \<open>Measurement\<close> (the serialized payload), the two parts of the spec's Result
  Envelope.
\<close>

record MeasureResult =
  Err :: "error option"
  Measurement :: bytes

text \<open>The message type \<open>websocket.TextMessage\<close> of the WebSocket library.\<close>

definition TextMessage :: int where
  "TextMessage = 1"

text \<open>
  What the goroutine started by \<open>Writer\<close> does, in the order it does it:
  a log line, an envelope received from \<open>input\<close> by the main loop, a call of
  \<open>conn.WriteMessage\<close>, an error sent on \<open>output\<close>, an envelope received and
  thrown away by the deferred drain loop, the deferred \<open>close(output)\<close>.
\<close>

datatype event =
    LogDebug string
  | LogWarn error string
  | Recv MeasureResult
  | WriteMessage int bytes
  | Send error
  | Discard MeasureResult
  | CloseOutput

text \<open>
  The connection is a value of any type \<open>'c\<close>; \<open>conn.WriteMessage\<close> is a
  parameter \<open>wm\<close> that, from the connection, the message type and the data,
  gives the returned error and the connection afterwards.

  \<open>Writer_loop\<close> is the \<open>for mr := range input\<close> loop. The input channel is the
  list of envelopes its producer sends before closing it. \<open>output\<close> is an
  unbuffered channel, so \<open>output <- err\<close> completes only when the consumer
  receives: \<open>rcv\<close> says whether the consumer does. The loop returns the
  events, the connection, the envelopes not yet received, and whether the
  goroutine is stuck in the send.
\<close>

fun Writer_loop ::
  "('c \<Rightarrow> int \<Rightarrow> bytes \<Rightarrow> error option \<times> 'c) \<Rightarrow> bool \<Rightarrow> 'c \<Rightarrow> MeasureResult list
    \<Rightarrow> event list \<times> 'c \<times> MeasureResult list \<times> bool" where
  "Writer_loop wm rcv c [] = ([], c, [], False)"
| "Writer_loop wm rcv c (mr # input) =
    (case Err mr of
       Some e \<Rightarrow>
         (if rcv then ([Recv mr, Send e], c, input, False)
          else ([Recv mr], c, input, True))
     | None \<Rightarrow>
         (case wm c TextMessage (Measurement mr) of
            (Some err, c') \<Rightarrow>
              (if rcv
               then ([Recv mr, WriteMessage TextMessage (Measurement mr),
                      LogWarn err ''WriteMessage failed'', Send err], c', input, False)
               else ([Recv mr, WriteMessage TextMessage (Measurement mr),
                      LogWarn err ''WriteMessage failed''], c', input, True))
          | (None, c') \<Rightarrow>
              (case Writer_loop wm rcv c' input of
                 (evs, c'', rest, stuck) \<Rightarrow>
                   (Recv mr # WriteMessage TextMessage (Measurement mr) # evs,
                    c'', rest, stuck))))"

text \<open>
  One run of the goroutine: its events, the connection afterwards, the
  envelopes it never received, and whether it is blocked forever.
\<close>

record 'c run =
  trace :: "event list"
  conn_after :: 'c
  pending :: "MeasureResult list"
  blocked :: bool

text \<open>
  The goroutine of \<open>Writer\<close>. The deferred calls run in reverse order once
  the loop is left: the drain of \<open>input\<close>, the log line, \<open>close(output)\<close>.
  A goroutine stuck in the send never reaches them.
\<close>

definition Writer ::
  "('c \<Rightarrow> int \<Rightarrow> bytes \<Rightarrow> error option \<times> 'c) \<Rightarrow> bool \<Rightarrow> 'c \<Rightarrow> MeasureResult list
    \<Rightarrow> 'c run" where
  "Writer wm rcv c input =
    (case Writer_loop wm rcv c input of
       (evs, c', rest, stuck) \<Rightarrow>
         (if stuck
          then \<lparr>trace = LogDebug ''sink.Writer: start'' # evs, conn_after = c',
                pending = rest, blocked = True\<rparr>
          else \<lparr>trace = LogDebug ''sink.Writer: start'' # evs @ map Discard rest
                  @ [LogDebug ''sink.Writer: stop'', CloseOutput],
                conn_after = c', pending = [], blocked = False\<rparr>))"




text \<open>
  Writing the payloads of a run of envelopes one after the other on the
  connection, up to the first failure: the error of that failure, if any, and
  the connection afterwards.
\<close>

fun write_all ::
  "('c \<Rightarrow> int \<Rightarrow> bytes \<Rightarrow> error option \<times> 'c) \<Rightarrow> 'c \<Rightarrow> MeasureResult list
    \<Rightarrow> error option \<times> 'c" where
  "write_all wm c [] = (None, c)"
| "write_all wm c (mr # mrs) =
    (case wm c TextMessage (Measurement mr) of
       (Some err, c') \<Rightarrow> (Some err, c')
     | (None, c') \<Rightarrow> write_all wm c' mrs)"

text \<open>The events of the main loop for an envelope whose payload was written.\<close>

fun written :: "MeasureResult list \<Rightarrow> event list" where
  "written [] = []"
| "written (mr # mrs) =
    Recv mr # WriteMessage TextMessage (Measurement mr) # written mrs"

section \<open>The Go client: Client.dial, Download, Upload\<close>

record Client =
  Hostname :: string
  Port :: string
  Insecure :: bool

text \<open>The fields of \<open>url.URL\<close>, \<open>tls.Config\<close> and \<open>websocket.Dialer\<close> that the client sets.\<close>

record URL =
  Scheme :: string
  Host :: string
  Path :: string

record tls_Config =
  InsecureSkipVerify :: bool

record Dialer =
  TLSClientConfig :: "tls_Config option"
  HandshakeTimeout :: int

text \<open>\<open>time.Second\<close>, a \<open>time.Duration\<close> in nanoseconds.\<close>

definition Second :: int where
  "Second = 1000000000"

text \<open>
  An \<open>http.Header\<close>, as the list of the \<open>Add\<close> calls made on it, each with the key
  and the value it was given (the canonical spelling of the key is the library's).
\<close>

type_synonym Header = "(string \<times> string) list"

definition Header_Add :: "Header \<Rightarrow> string \<Rightarrow> string \<Rightarrow> Header" where
  "Header_Add h k v = h @ [(k, v)]"

text \<open>
  What the client sees of a \<open>websocket.Conn\<close>: the read limit that
  \<open>SetReadLimit\<close> stores, and the frames the peer sends on it.
\<close>

record Conn =
  readLimit :: int
  inbound :: "bytes list"

text \<open>
  What the client calls and does not define: the package variable \<open>dial\<close> (which
  the tests replace; it gets \<open>URL.String()\<close>, a function of the \<open>URL\<close> value
  that stands for it here), \<open>Close\<close> of the connection, and the stages of
  package \<open>protocol\<close>, which is not among the sources. \<open>protocol.Writer\<close>
  gives the items its channel delivers before it is closed.
\<close>

record ('r, 'm) deps =
  dial_var :: "Dialer \<Rightarrow> URL \<Rightarrow> Header \<Rightarrow> error + Conn"
  conn_Close :: "Conn \<Rightarrow> error option"
  protocol_Reader :: "Conn \<Rightarrow> 'r"
  protocol_Measurer :: "'r \<Rightarrow> 'm"
  protocol_Counterflow :: "Conn \<Rightarrow> 'm \<Rightarrow> error option"
  protocol_Writer :: "Conn \<Rightarrow> error option list"

text \<open>
  What the goroutine that runs a subtest does, in program order: the calls it
  makes, and the \<open>go\<close> statement of \<open>Upload\<close>, which starts a second goroutine.
  That goroutine calls \<open>protocol.Reader(conn)\<close> and discards what it yields; it
  runs concurrently, so its call of the reader has no place in this order.
\<close>

datatype call =
    Debugf string URL
  | Dial Dialer URL Header
  | SetReadLimit int
  | Reader_called
  | Go_discard_Reader
  | Measurer_called
  | Counterflow_called
  | Writer_called
  | Close_called
  | Warn error string

text \<open>
  \<open>Client.dial\<close>, up to the call of \<open>dial\<close>: the dialer, the URL and the
  headers it builds.
\<close>

definition dial_request :: "Client \<Rightarrow> string \<Rightarrow> Dialer \<times> URL \<times> Header" where
  "dial_request cl urlpath =
    (let u = \<lparr>Scheme = ''wss'', Host = Hostname cl @ '':'' @ Port cl, Path = urlpath\<rparr>;
         dialer0 = \<lparr>TLSClientConfig = None, HandshakeTimeout = 0\<rparr>;
         dialer1 = (if Insecure cl
                    then dialer0\<lparr>TLSClientConfig := Some \<lparr>InsecureSkipVerify = True\<rparr>\<rparr>
                    else dialer0);
         headers = Header_Add [] ''Sec-WebSocket-Protocol'' ''net.measurementlab.ndt.v7'';
         dialer2 = dialer1\<lparr>HandshakeTimeout := 3 * Second\<rparr>
     in (dialer2, u, headers))"

text \<open>
  \<open>Client.dial\<close>: the calls made and the connection or the error returned.
  \<open>1 << 17\<close> is \<open>push_bit 17 1\<close>.
\<close>

definition Client_dial ::
  "('r, 'm) deps \<Rightarrow> Client \<Rightarrow> string \<Rightarrow> call list \<times> (error + Conn)" where
  "Client_dial d cl urlpath =
    (case dial_request cl urlpath of
       (dialer, u, headers) \<Rightarrow>
         (case dial_var d dialer u headers of
            Inl err \<Rightarrow> ([Debugf ''Connecting to: %s'' u, Dial dialer u headers], Inl err)
          | Inr conn \<Rightarrow>
              ([Debugf ''Connecting to: %s'' u, Dial dialer u headers,
                SetReadLimit (push_bit 17 1)],
               Inr (conn\<lparr>readLimit := push_bit 17 1\<rparr>))))"

text \<open>\<open>closeandwarn\<close>: close, and warn when closing fails.\<close>

definition closeandwarn :: "('r, 'm) deps \<Rightarrow> Conn \<Rightarrow> string \<Rightarrow> call list" where
  "closeandwarn d closer message =
    (case conn_Close d closer of
       Some err \<Rightarrow> [Close_called, Warn err message]
     | None \<Rightarrow> [Close_called])"

text \<open>
  \<open>Client.Download\<close>: the calls made and the error returned (\<open>None\<close> is \<open>nil\<close>).
  The deferred \<open>closeandwarn\<close> runs after the stages have returned.
\<close>

definition Download :: "('r, 'm) deps \<Rightarrow> Client \<Rightarrow> call list \<times> error option" where
  "Download d cl =
    (case Client_dial d cl ''/ndt/v7/download'' of
       (cs, Inl err) \<Rightarrow> (cs, Some err)
     | (cs, Inr conn) \<Rightarrow>
         (cs @ [Reader_called, Measurer_called, Counterflow_called]
             @ closeandwarn d conn ''Ignored error when closing connection'',
          protocol_Counterflow d conn
            (protocol_Measurer d (protocol_Reader d conn))))"

text \<open>
  \<open>Client.Upload\<close>. After a successful dial it starts the goroutine that
  discards what \<open>protocol.Reader\<close> yields, then calls \<open>protocol.Writer\<close> and
  receives from its channel: \<open><-protocol.Writer(conn)\<close> is the first item of
  the channel, or \<open>nil\<close> when the channel is closed with none. The deferred
  \<open>closeandwarn\<close> runs when that receive has returned.
\<close>

definition Upload :: "('r, 'm) deps \<Rightarrow> Client \<Rightarrow> call list \<times> error option" where
  "Upload d cl =
    (case Client_dial d cl ''/ndt/v7/upload'' of
       (cs, Inl err) \<Rightarrow> (cs, Some err)
     | (cs, Inr conn) \<Rightarrow>
         (cs @ [Go_discard_Reader, Writer_called]
             @ closeandwarn d conn ''Ignored error when closing connection'',
          (case protocol_Writer d conn of [] \<Rightarrow> None | item # _ \<Rightarrow> item)))"

text \<open>
  The steps of a subtest that run a stage of the protocol, in this goroutine
  or in the one it starts.
\<close>

fun is_stage :: "call \<Rightarrow> bool" where
  "is_stage Reader_called = True"
| "is_stage Go_discard_Reader = True"
| "is_stage Measurer_called = True"
| "is_stage Counterflow_called = True"
| "is_stage Writer_called = True"
| "is_stage _ = False"

text \<open>The calls of \<open>dial\<close> among the calls of a subtest, with their arguments.\<close>

fun dials :: "call list \<Rightarrow> (Dialer \<times> URL \<times> Header) list" where
  "dials [] = []"
| "dials (Dial dialer u headers # cs) = (dialer, u, headers) # dials cs"
| "dials (_ # cs) = dials cs"

text \<open>
  Modelled from the spec: \<open>protocol.Reader\<close> (the spec's Frame Reader) is not
  among the sources. One envelope per inbound frame, decoded as a payload; the
  sequence ends normally when the peer closes the connection, and with a
  single error envelope on a read or decode failure. A frame exceeding the
  connection's maximum size is a protocol error, surfaced without an attempt
  to decode it. \<open>invalid\<close> gives the error of decoding a frame, if any.
\<close>

definition ErrReadLimit :: error where
  "ErrReadLimit = ''websocket: read limit exceeded''"

fun read_frames ::
  "(bytes \<Rightarrow> error option) \<Rightarrow> int \<Rightarrow> bytes list \<Rightarrow> MeasureResult list" where
  "read_frames invalid limit [] = []"
| "read_frames invalid limit (f # fs) =
    (if int (length f) > limit
     then [\<lparr>Err = Some ErrReadLimit, Measurement = []\<rparr>]
     else (case invalid f of
             Some e \<Rightarrow> [\<lparr>Err = Some e, Measurement = []\<rparr>]
           | None \<Rightarrow> \<lparr>Err = None, Measurement = f\<rparr> # read_frames invalid limit fs))"

definition Frame_Reader :: "(bytes \<Rightarrow> error option) \<Rightarrow> Conn \<Rightarrow> MeasureResult list" where
  "Frame_Reader invalid conn = read_frames invalid (readLimit conn) (inbound conn)"

section \<open>The command line client: runSubtest, download, upload, realmain\<close>

















section \<open>The browser library: measure\<close>

text \<open>
  A JavaScript string is a sequence of UTF-16 code units, and \<open>length\<close> counts
  them. A JavaScript value is given as far as the messages need it; a number
  is the exact quotient (division by 1000 rounds monotonically, so the order
  of the numbers is the order of the quotients).
\<close>

type_synonym jsstring = "16 word list"

datatype jsvalue =
    JNull
  | JBool bool
  | JNum rat
  | JStr jsstring
  | JArr "jsvalue list"
  | JObj "(string \<times> jsvalue) list"

text \<open>\<open>event.data\<close> of a message: a \<open>Blob\<close> of some size, or a string.\<close>

datatype data = Blob nat | Text jsstring

definition serverMeasurement :: string where
  "serverMeasurement = ''ndt7.measurement.server''"

definition clientMeasurement :: string where
  "clientMeasurement = ''ndt7.measurement.client''"

text \<open>
  \<open>funcs\<close> holds the handlers set with \<open>on\<close>. A handler gets the value and
  either returns (\<open>True\<close>) or throws (\<open>False\<close>). \<open>emit\<close> gives the
  handler calls made, and whether it returned.
\<close>

type_synonym funcs = "string \<Rightarrow> (jsvalue \<Rightarrow> bool) option"

definition emit :: "funcs \<Rightarrow> string \<Rightarrow> jsvalue \<Rightarrow> (string \<times> jsvalue) list \<times> bool" where
  "emit fs key v =
    (case fs key of None \<Rightarrow> ([], True) | Some handler \<Rightarrow> ([(key, v)], handler v))"

text \<open>
  The variables \<open>count\<close>, \<open>t0\<close> and \<open>tlast\<close> that \<open>measure\<close> closes over:
  a sum of sizes, and two clock values in milliseconds.
\<close>

record measure_state =
  count :: nat
  t0 :: int
  tlast :: int

text \<open>\<open>measure\<close>, with \<open>now\<close> what \<open>new Date().getTime()\<close> returns.\<close>

definition measure_socket :: "int \<Rightarrow> measure_state" where
  "measure_socket now = \<lparr>count = 0, t0 = now, tlast = now\<rparr>"

definition every :: int where
  "every = 250"

text \<open>The object emitted as a client measurement.\<close>

definition measurement :: "int \<Rightarrow> int \<Rightarrow> nat \<Rightarrow> jsvalue" where
  "measurement t1 t_0 cnt =
    JObj [(''elapsed'', JNum (of_int (t1 - t_0) / 1000)),
          (''app_info'', JObj [(''num_bytes'', JNum (of_nat cnt))])]"

text \<open>
  The first statement of \<open>socket.onmessage\<close>: the handler calls made, and the
  state after it, or \<open>None\<close> when \<open>JSON.parse\<close> (the parameter \<open>parse\<close>,
  \<open>None\<close> when it throws) or the handler threw before \<open>count\<close> was updated.
\<close>

definition onmessage_count ::
  "funcs \<Rightarrow> (jsstring \<Rightarrow> jsvalue option) \<Rightarrow> data \<Rightarrow> measure_state
    \<Rightarrow> (string \<times> jsvalue) list \<times> measure_state option" where
  "onmessage_count fs parse d s =
    (case d of
       Blob sz \<Rightarrow> ([], Some (s\<lparr>count := count s + sz\<rparr>))
     | Text str \<Rightarrow>
         (case parse str of
            None \<Rightarrow> ([], None)
          | Some v \<Rightarrow>
              (case emit fs serverMeasurement v of
                 (ems, ok) \<Rightarrow>
                   (ems, if ok then Some (s\<lparr>count := count s + length str\<rparr>) else None))))"

text \<open>
  \<open>socket.onmessage\<close> on a message, with \<open>t1\<close> what the clock returns in this
  call: the handler calls made and the state afterwards. An exception leaves
  the handler at once, with the assignments made so far.
\<close>

definition onmessage ::
  "funcs \<Rightarrow> (jsstring \<Rightarrow> jsvalue option) \<Rightarrow> data \<Rightarrow> int \<Rightarrow> measure_state
    \<Rightarrow> (string \<times> jsvalue) list \<times> measure_state" where
  "onmessage fs parse d t1 s =
    (case onmessage_count fs parse d s of
       (ems, None) \<Rightarrow> (ems, s)
     | (ems, Some s1) \<Rightarrow>
         (if t1 - tlast s1 > every
          then (case emit fs clientMeasurement (measurement t1 (t0 s1) (count s1)) of
                  (ems2, ok) \<Rightarrow> (ems @ ems2, if ok then s1\<lparr>tlast := t1\<rparr> else s1))
          else (ems, s1)))"

text \<open>
  The messages of one connection, each with the clock's value in its call of
  the handler: every handler call made, with that clock value.
\<close>

fun run_messages ::
  "funcs \<Rightarrow> (jsstring \<Rightarrow> jsvalue option) \<Rightarrow> (data \<times> int) list \<Rightarrow> measure_state
    \<Rightarrow> (int \<times> string \<times> jsvalue) list" where
  "run_messages fs parse [] s = []"
| "run_messages fs parse ((d, t1) # ms) s =
    (case onmessage fs parse d t1 s of
       (ems, s') \<Rightarrow> map (\<lambda>(k, v). (t1, k, v)) ems @ run_messages fs parse ms s')"

text \<open>The client measurements among them, each with its clock value.\<close>

definition client_measurements ::
  "(int \<times> string \<times> jsvalue) list \<Rightarrow> (int \<times> jsvalue) list" where
  "client_measurements l =
    map (\<lambda>(t, k, v). (t, v)) (filter (\<lambda>(t, k, v). k = clientMeasurement) l)"

text \<open>Reading a field of an object.\<close>

fun field :: "string \<Rightarrow> jsvalue \<Rightarrow> jsvalue option" where
  "field k (JObj fs) = map_of fs k"
| "field k _ = None"





section \<open>Properties of sink.Writer\<close>

lemma Writer_loop_written:
  "\<forall>m\<in>set pre. Err m = None \<Longrightarrow> write_all wm c pre = (None, c') \<Longrightarrow>
   Writer_loop wm rcv c (pre @ rest) =
     (case Writer_loop wm rcv c' rest of
        (evs, c'', r, s) \<Rightarrow> (written pre @ evs, c'', r, s))"
proof (induction pre arbitrary: c)
  case Nil
  then show ?case by simp
next
  case (Cons m pre)
  then show ?case
    by (auto split: prod.splits option.splits)
qed























text \<open>
  Without a consumer that receives, the goroutine stays in the send: the
  envelopes behind the error are never received and the output is not closed.
\<close>

lemma Writer_without_consumer:
  assumes "\<forall>m\<in>set pre. Err m = None"
    and "write_all wm c pre = (None, c')"
    and "Err mr = Some e"
  shows "Writer wm False c (pre @ mr # post) =
           \<lparr>trace = LogDebug ''sink.Writer: start'' # written pre @ [Recv mr],
            conn_after = c', pending = post, blocked = True\<rparr>"
proof -
  have "Writer_loop wm False c (pre @ mr # post) = (written pre @ [Recv mr], c', post, True)"
    using assms by (simp add: Writer_loop_written)
  then show ?thesis by (simp add: Writer_def)
qed

section \<open>Properties of the Go client\<close>

lemma dials_append: "dials (xs @ ys) = dials xs @ dials ys"
  by (induction xs rule: dials.induct) auto

lemma dials_closeandwarn: "dials (closeandwarn d conn msg) = []"
  by (simp add: closeandwarn_def split: option.splits)

lemma dials_Client_dial: "dials (fst (Client_dial d cl urlpath)) = [dial_request cl urlpath]"
  by (simp add: Client_dial_def split: prod.splits sum.splits)

lemma read_frames_limit:
  "\<forall>g\<in>set pre. int (length g) \<le> limit \<and> invalid g = None \<Longrightarrow> int (length f) > limit \<Longrightarrow>
   read_frames invalid limit (pre @ f # post)
     = map (\<lambda>g. \<lparr>Err = None, Measurement = g\<rparr>) pre
       @ [\<lparr>Err = Some ErrReadLimit, Measurement = []\<rparr>]"
  by (induction pre) auto

text \<open>
  C4. Let \<open>dialer1\<close>, \<open>u1\<close>, \<open>h1\<close> be what \<open>Download\<close> passes to \<open>dial\<close>, and
  \<open>dialer2\<close>, \<open>u2\<close>, \<open>h2\<close> what \<open>Upload\<close> passes. If that call of \<open>dial\<close>
  fails with \<open>err\<close>, the subtest returns \<open>err\<close>; all it did is log the URL
  and call \<open>dial\<close>: no stage of the protocol is run, so no measurement is
  produced, and nothing is closed. The failure is the return value of that
  subtest alone.
\<close>

theorem dial_failure_is_returned:
  assumes "dial_request cl ''/ndt/v7/download'' = (dialer1, u1, h1)"
    and "dial_request cl ''/ndt/v7/upload'' = (dialer2, u2, h2)"
  shows "(dial_var d dialer1 u1 h1 = Inl err \<longrightarrow>
            Download d cl = ([Debugf ''Connecting to: %s'' u1, Dial dialer1 u1 h1], Some err)
            \<and> filter is_stage (fst (Download d cl)) = [])
       \<and> (dial_var d dialer2 u2 h2 = Inl err \<longrightarrow>
            Upload d cl = ([Debugf ''Connecting to: %s'' u2, Dial dialer2 u2 h2], Some err)
            \<and> filter is_stage (fst (Upload d cl)) = [])"
  using assms by (simp add: Download_def Upload_def Client_dial_def)

text \<open>
  A server that refuses the download path and accepts the upload path: the
  download returns the error of \<open>dial\<close> after the two calls, and the upload of
  the same client runs its stages.
\<close>

theorem dial_failure_is_returned_witness:
  "Download \<lparr>dial_var = (\<lambda>dl u h. if Path u = ''/ndt/v7/download''
                                   then Inl ''connection refused''
                                   else Inr \<lparr>readLimit = 0, inbound = []\<rparr>),
             conn_Close = (\<lambda>c. None), protocol_Reader = (\<lambda>c. ()),
             protocol_Measurer = (\<lambda>r. ()), protocol_Counterflow = (\<lambda>c m. None),
             protocol_Writer = (\<lambda>c. [])\<rparr>
     \<lparr>Hostname = ''ndt.example.org'', Port = ''443'', Insecure = False\<rparr>
   = ([Debugf ''Connecting to: %s''
         \<lparr>Scheme = ''wss'', Host = ''ndt.example.org:443'', Path = ''/ndt/v7/download''\<rparr>,
       Dial \<lparr>TLSClientConfig = None, HandshakeTimeout = 3000000000\<rparr>
         \<lparr>Scheme = ''wss'', Host = ''ndt.example.org:443'', Path = ''/ndt/v7/download''\<rparr>
         [(''Sec-WebSocket-Protocol'', ''net.measurementlab.ndt.v7'')]],
      Some ''connection refused'')
   \<and> Upload \<lparr>dial_var = (\<lambda>dl u h. if Path u = ''/ndt/v7/download''
                                   then Inl ''connection refused''
                                   else Inr \<lparr>readLimit = 0, inbound = []\<rparr>),
             conn_Close = (\<lambda>c. None), protocol_Reader = (\<lambda>c. ()),
             protocol_Measurer = (\<lambda>r. ()), protocol_Counterflow = (\<lambda>c m. None),
             protocol_Writer = (\<lambda>c. [])\<rparr>
     \<lparr>Hostname = ''ndt.example.org'', Port = ''443'', Insecure = False\<rparr>
   = ([Debugf ''Connecting to: %s''
         \<lparr>Scheme = ''wss'', Host = ''ndt.example.org:443'', Path = ''/ndt/v7/upload''\<rparr>,
       Dial \<lparr>TLSClientConfig = None, HandshakeTimeout = 3000000000\<rparr>
         \<lparr>Scheme = ''wss'', Host = ''ndt.example.org:443'', Path = ''/ndt/v7/upload''\<rparr>
         [(''Sec-WebSocket-Protocol'', ''net.measurementlab.ndt.v7'')],
       SetReadLimit 131072, Go_discard_Reader, Writer_called, Close_called],
      None)"
proof -
  let ?d = "\<lparr>dial_var = (\<lambda>dl u h. if Path u = ''/ndt/v7/download''
                                   then Inl ''connection refused''
                                   else Inr \<lparr>readLimit = 0, inbound = []\<rparr>),
             conn_Close = (\<lambda>c. None), protocol_Reader = (\<lambda>c. ()),
             protocol_Measurer = (\<lambda>r. ()), protocol_Counterflow = (\<lambda>c m. None),
             protocol_Writer = (\<lambda>c. [])\<rparr>"
  let ?cl = "\<lparr>Hostname = ''ndt.example.org'', Port = ''443'', Insecure = False\<rparr>"
  let ?u1 = "\<lparr>Scheme = ''wss'', Host = ''ndt.example.org:443'', Path = ''/ndt/v7/download''\<rparr>"
  let ?u2 = "\<lparr>Scheme = ''wss'', Host = ''ndt.example.org:443'', Path = ''/ndt/v7/upload''\<rparr>"
  let ?dl = "\<lparr>TLSClientConfig = None, HandshakeTimeout = 3000000000\<rparr>"
  let ?h = "[(''Sec-WebSocket-Protocol'', ''net.measurementlab.ndt.v7'')]"
  have r1: "dial_request ?cl ''/ndt/v7/download'' = (?dl, ?u1, ?h)"
    by (simp add: dial_request_def Header_Add_def Second_def)
  have r2: "dial_request ?cl ''/ndt/v7/upload'' = (?dl, ?u2, ?h)"
    by (simp add: dial_request_def Header_Add_def Second_def)
  have "Download ?d ?cl = ([Debugf ''Connecting to: %s'' ?u1, Dial ?dl ?u1 ?h],
      Some ''connection refused'')"
    using dial_failure_is_returned [OF r1 r2, where d = ?d and err = "''connection refused''"]
    by simp
  moreover have "Upload ?d ?cl = ([Debugf ''Connecting to: %s'' ?u2, Dial ?dl ?u2 ?h,
       SetReadLimit 131072, Go_discard_Reader, Writer_called, Close_called], None)"
    by (simp add: Upload_def Client_dial_def r2 closeandwarn_def)
  ultimately show ?thesis by simp
qed

text \<open>
  C5. For every connection \<open>conn\<close> that \<open>dial\<close> returns, whatever the peer
  sends on it, \<open>Client.dial\<close> sets the read limit to \<open>1 << 17\<close>, which is
  128 KiB, changes nothing else of the connection, and returns it. If on that
  connection a frame longer than 128 KiB arrives after valid frames within the
  limit, the Frame Reader of the spec decodes those frames and, for the long
  one, whatever it holds, yields a single error envelope, with no payload,
  that ends the sequence.
\<close>

theorem read_limit_128KiB:
  assumes "dial_request cl urlpath = (dialer, u, h)"
    and "dial_var d dialer u h = Inr conn"
  shows "Client_dial d cl urlpath
            = ([Debugf ''Connecting to: %s'' u, Dial dialer u h, SetReadLimit (2 ^ 17)],
               Inr (conn\<lparr>readLimit := 128 * 1024\<rparr>))
       \<and> (inbound conn = pre @ f # post \<longrightarrow>
            (\<forall>g\<in>set pre. length g \<le> 128 * 1024 \<and> invalid g = None) \<longrightarrow>
            length f > 128 * 1024 \<longrightarrow>
            Frame_Reader invalid (conn\<lparr>readLimit := 128 * 1024\<rparr>)
              = map (\<lambda>g. \<lparr>Err = None, Measurement = g\<rparr>) pre
                @ [\<lparr>Err = Some ErrReadLimit, Measurement = []\<rparr>])"
proof -
  have lim: "push_bit 17 (1::int) = 131072" by (simp add: push_bit_eq_mult)
  have dialed: "Client_dial d cl urlpath
            = ([Debugf ''Connecting to: %s'' u, Dial dialer u h, SetReadLimit (2 ^ 17)],
               Inr (conn\<lparr>readLimit := 128 * 1024\<rparr>))"
    using assms by (simp add: Client_dial_def lim)
  have reader: "Frame_Reader invalid (conn\<lparr>readLimit := 128 * 1024\<rparr>)
              = map (\<lambda>g. \<lparr>Err = None, Measurement = g\<rparr>) pre
                @ [\<lparr>Err = Some ErrReadLimit, Measurement = []\<rparr>]"
    if "inbound conn = pre @ f # post"
      and "\<forall>g\<in>set pre. length g \<le> 128 * 1024 \<and> invalid g = None"
      and "length f > 128 * 1024"
    using that by (simp add: Frame_Reader_def read_frames_limit)
  show ?thesis using dialed reader by blast
qed

text \<open>
  Two peers. The first sends nothing: the connection returned has the limit
  of 131072 bytes. The second sends a frame of three bytes, then one of
  128 KiB and a byte, then another: the limit is set, the first frame is
  decoded, and the second is the error that ends the sequence.
\<close>

theorem read_limit_128KiB_witness:
  "snd (Client_dial
        \<lparr>dial_var = (\<lambda>dl u h. Inr \<lparr>readLimit = 0, inbound = []\<rparr>),
         conn_Close = (\<lambda>c. None), protocol_Reader = (\<lambda>c. ()),
         protocol_Measurer = (\<lambda>r. ()), protocol_Counterflow = (\<lambda>c m. None),
         protocol_Writer = (\<lambda>c. [])\<rparr>
        \<lparr>Hostname = ''ndt.example.org'', Port = ''443'', Insecure = False\<rparr>
        ''/ndt/v7/upload'') = Inr \<lparr>readLimit = 131072, inbound = []\<rparr>
   \<and> snd (Client_dial
        \<lparr>dial_var = (\<lambda>dl u h. Inr \<lparr>readLimit = 0,
                       inbound = [[1, 2, 3], replicate 131073 0, [4]]\<rparr>),
         conn_Close = (\<lambda>c. None), protocol_Reader = (\<lambda>c. ()),
         protocol_Measurer = (\<lambda>r. ()), protocol_Counterflow = (\<lambda>c m. None),
         protocol_Writer = (\<lambda>c. [])\<rparr>
        \<lparr>Hostname = ''ndt.example.org'', Port = ''443'', Insecure = False\<rparr>
        ''/ndt/v7/download'')
       = Inr \<lparr>readLimit = 131072, inbound = [[1, 2, 3], replicate 131073 0, [4]]\<rparr>
   \<and> Frame_Reader (\<lambda>g. None)
        \<lparr>readLimit = 131072, inbound = [[1, 2, 3], replicate 131073 0, [4]]\<rparr>
       = [\<lparr>Err = None, Measurement = [1, 2, 3]\<rparr>,
          \<lparr>Err = Some ''websocket: read limit exceeded'', Measurement = []\<rparr>]"
proof -
  let ?quiet = "\<lparr>readLimit = 0, inbound = []\<rparr>"
  let ?c = "\<lparr>readLimit = 0, inbound = [[1, 2, 3], replicate 131073 0, [4]]\<rparr>"
  let ?silent = "\<lparr>dial_var = (\<lambda>dl u h. Inr ?quiet),
         conn_Close = (\<lambda>c. None), protocol_Reader = (\<lambda>c. ()),
         protocol_Measurer = (\<lambda>r. ()), protocol_Counterflow = (\<lambda>c m. None),
         protocol_Writer = (\<lambda>c. [])\<rparr>"
  let ?d = "\<lparr>dial_var = (\<lambda>dl u h. Inr ?c),
         conn_Close = (\<lambda>c. None), protocol_Reader = (\<lambda>c. ()),
         protocol_Measurer = (\<lambda>r. ()), protocol_Counterflow = (\<lambda>c m. None),
         protocol_Writer = (\<lambda>c. [])\<rparr>"
  let ?cl = "\<lparr>Hostname = ''ndt.example.org'', Port = ''443'', Insecure = False\<rparr>"
  obtain dialer0 u0 h0 where req0: "dial_request ?cl ''/ndt/v7/upload'' = (dialer0, u0, h0)"
    by (cases "dial_request ?cl ''/ndt/v7/upload''")
  obtain dialer u h where req: "dial_request ?cl ''/ndt/v7/download'' = (dialer, u, h)"
    by (cases "dial_request ?cl ''/ndt/v7/download''")
  have ok0: "dial_var ?silent dialer0 u0 h0 = Inr ?quiet" by simp
  have ok: "dial_var ?d dialer u h = Inr ?c" by simp
  have frames: "inbound ?c = [[1, 2, 3]] @ replicate 131073 0 # [[4]]" by simp
  have small: "\<forall>g\<in>set [[1, 2, 3 :: 8 word]].
      length g \<le> 128 * 1024 \<and> (\<lambda>g. None :: error option) g = None"
    by simp
  have big: "length (replicate 131073 (0 :: 8 word)) > 128 * 1024" by simp
  have empty: "snd (Client_dial ?silent ?cl ''/ndt/v7/upload'')
      = Inr \<lparr>readLimit = 131072, inbound = []\<rparr>"
    using read_limit_128KiB [OF req0 ok0] by simp
  have full: "snd (Client_dial ?d ?cl ''/ndt/v7/download'')
       = Inr \<lparr>readLimit = 131072, inbound = [[1, 2, 3], replicate 131073 0, [4]]\<rparr>
     \<and> Frame_Reader (\<lambda>g. None)
        \<lparr>readLimit = 131072, inbound = [[1, 2, 3], replicate 131073 0, [4]]\<rparr>
       = [\<lparr>Err = None, Measurement = [1, 2, 3]\<rparr>,
          \<lparr>Err = Some ''websocket: read limit exceeded'', Measurement = []\<rparr>]"
    using read_limit_128KiB [OF req ok, where pre = "[[1, 2, 3]]"
        and f = "replicate 131073 0" and post = "[[4]]" and invalid = "\<lambda>g. None"]
      frames small big
    by (simp add: ErrReadLimit_def)
  show ?thesis using empty full by simp
qed

text \<open>
  C7. Whatever the client and whatever \<open>dial\<close> and the stages do, a download
  calls \<open>dial\<close> once, with the path \<open>/ndt/v7/download\<close>, and an upload calls it
  once, with the path \<open>/ndt/v7/upload\<close>; both times the headers of the
  handshake are the one header \<open>Sec-WebSocket-Protocol\<close> with the value
  \<open>net.measurementlab.ndt.v7\<close>.
\<close>

theorem subprotocol_and_path:
  "map (\<lambda>(dialer, u, h). (Path u, h)) (dials (fst (Download d cl)))
     = [(''/ndt/v7/download'', [(''Sec-WebSocket-Protocol'', ''net.measurementlab.ndt.v7'')])]
   \<and> map (\<lambda>(dialer, u, h). (Path u, h)) (dials (fst (Upload d cl)))
     = [(''/ndt/v7/upload'', [(''Sec-WebSocket-Protocol'', ''net.measurementlab.ndt.v7'')])]"
proof -
  have req: "\<And>p. (\<lambda>(dialer, u, h). (Path u, h)) (dial_request cl p)
      = (p, [(''Sec-WebSocket-Protocol'', ''net.measurementlab.ndt.v7'')])"
    by (simp add: dial_request_def Header_Add_def Let_def)
  have d1: "dials (fst (Download d cl)) = [dial_request cl ''/ndt/v7/download'']"
    using dials_Client_dial [of d cl "''/ndt/v7/download''"]
    by (auto simp: Download_def dials_append dials_closeandwarn split: prod.splits sum.splits)
  have d2: "dials (fst (Upload d cl)) = [dial_request cl ''/ndt/v7/upload'']"
    using dials_Client_dial [of d cl "''/ndt/v7/upload''"]
    by (auto simp: Upload_def dials_append dials_closeandwarn split: prod.splits sum.splits)
  show ?thesis by (simp add: d1 d2 req)
qed

text \<open>
  C10. For every client and every path, what \<open>Client.dial\<close> passes to \<open>dial\<close>
  is: a URL with the scheme \<open>wss\<close>, the host \<open>Hostname:Port\<close> and the path; a
  dialer with the handshake timeout of three seconds and, when \<open>Insecure\<close> is
  set, a TLS configuration with \<open>InsecureSkipVerify\<close>, none otherwise; the
  sub-protocol header. That is the only call of \<open>dial\<close>. So \<open>Insecure\<close>
  changes the TLS configuration and nothing else: the scheme is \<open>wss\<close> for
  both of its values.
\<close>

theorem scheme_is_wss:
  "dial_request cl urlpath =
     (\<lparr>TLSClientConfig = (if Insecure cl then Some \<lparr>InsecureSkipVerify = True\<rparr> else None),
       HandshakeTimeout = 3000000000\<rparr>,
      \<lparr>Scheme = ''wss'', Host = Hostname cl @ '':'' @ Port cl, Path = urlpath\<rparr>,
      [(''Sec-WebSocket-Protocol'', ''net.measurementlab.ndt.v7'')])
   \<and> dials (fst (Client_dial d cl urlpath)) = [dial_request cl urlpath]
   \<and> map (\<lambda>(dialer, u, h). Scheme u) (dials (fst (Client_dial d cl urlpath))) = [''wss'']
   \<and> snd (dial_request (cl\<lparr>Insecure := True\<rparr>) urlpath)
       = snd (dial_request (cl\<lparr>Insecure := False\<rparr>) urlpath)"
  by (simp add: dials_Client_dial dial_request_def Let_def Header_Add_def Second_def)


section \<open>Properties of the command line client\<close>
















section \<open>Properties of the browser library\<close>

lemma keys_differ: "serverMeasurement \<noteq> clientMeasurement"
  by (simp add: serverMeasurement_def clientMeasurement_def)

lemma client_measurements_append:
  "client_measurements (xs @ ys) = client_measurements xs @ client_measurements ys"
  by (simp add: client_measurements_def)

text \<open>
  One call of the handler: \<open>t0\<close> stays and \<open>count\<close> does not decrease; either
  no client measurement is made, and \<open>tlast\<close> stays or moves on to \<open>t1\<close>, or
  one is made, more than \<open>every\<close> after \<open>tlast\<close>, from \<open>t1\<close> and the new
  \<open>count\<close>, and \<open>tlast\<close> becomes \<open>t1\<close> unless the handler threw.
\<close>

lemma onmessage_step:
  assumes "onmessage fs parse d t1 s = (ems, s')"
  shows "t0 s' = t0 s \<and> count s \<le> count s' \<and>
         ((client_measurements (map (\<lambda>(k, v). (t1, k, v)) ems) = []
            \<and> (s' = s \<or> tlast s' = tlast s \<or> (tlast s + every < t1 \<and> tlast s' = t1)))
          \<or> (client_measurements (map (\<lambda>(k, v). (t1, k, v)) ems)
                = [(t1, measurement t1 (t0 s) (count s'))]
              \<and> tlast s + every < t1
              \<and> (tlast s' = t1 \<or> (\<exists>h v. fs clientMeasurement = Some h \<and> \<not> h v))))"
  using assms keys_differ
  by (auto simp: onmessage_def onmessage_count_def emit_def client_measurements_def
      split: data.splits option.splits if_splits prod.splits)

lemma run_shape:
  "\<exists>pts. client_measurements (run_messages fs parse ms s)
          = map (\<lambda>(t, c). (t, measurement t (t0 s) c)) pts"
proof (induction ms arbitrary: s)
  case Nil
  show ?case by (simp add: client_measurements_def)
next
  case (Cons m ms)
  obtain d t1 where m: "m = (d, t1)" by (cases m)
  obtain ems s' where step: "onmessage fs parse d t1 s = (ems, s')"
    by (cases "onmessage fs parse d t1 s")
  obtain pts where pts: "client_measurements (run_messages fs parse ms s')
          = map (\<lambda>(t, c). (t, measurement t (t0 s') c)) pts"
    using Cons.IH [of s'] by blast
  have t0: "t0 s' = t0 s" using onmessage_step [OF step] by simp
  have run: "client_measurements (run_messages fs parse (m # ms) s)
      = client_measurements (map (\<lambda>(k, v). (t1, k, v)) ems)
        @ map (\<lambda>(t, c). (t, measurement t (t0 s) c)) pts"
    using m step pts t0 by (simp add: client_measurements_append)
  consider "client_measurements (map (\<lambda>(k, v). (t1, k, v)) ems) = []"
    | "client_measurements (map (\<lambda>(k, v). (t1, k, v)) ems)
         = [(t1, measurement t1 (t0 s) (count s'))]"
    using onmessage_step [OF step] by blast
  then show ?case
  proof cases
    case 1
    then show ?thesis using run by auto
  next
    case 2
    then have "client_measurements (run_messages fs parse (m # ms) s)
      = map (\<lambda>(t, c). (t, measurement t (t0 s) c)) ((t1, count s') # pts)"
      using run by simp
    then show ?thesis by blast
  qed
qed












text \<open>
  C6, as the claim states it, fails: a run of \<open>measure\<close> with one message of
  1000 bytes, 300 milliseconds after the start, makes a client measurement, and
  that object has no field \<open>subtest\<close>.
\<close>

theorem measurement_subtest_counterexample:
  "client_measurements
     (run_messages (\<lambda>k. if k = clientMeasurement then Some (\<lambda>v. True) else None)
        (\<lambda>str. None) [(Blob 1000, 300)] (measure_socket 0))
   = [(300, JObj [(''elapsed'', JNum (3 / 10)),
                  (''app_info'', JObj [(''num_bytes'', JNum 1000)])])]
   \<and> field ''subtest''
       (JObj [(''elapsed'', JNum (3 / 10)),
              (''app_info'', JObj [(''num_bytes'', JNum 1000)])]) = None"
  by (simp add: client_measurements_def onmessage_def onmessage_count_def emit_def
      measure_socket_def every_def measurement_def
      clientMeasurement_def serverMeasurement_def)

text \<open>
  C6, amended. Every client measurement that a run of \<open>measure\<close> makes, whatever
  the handlers and the messages, is an object with exactly two fields:
  \<open>elapsed\<close>, the seconds from the start of the run to the clock value of
  the call, and \<open>app_info\<close>, an object whose only field is the byte counter
  \<open>num_bytes\<close>. It has no field \<open>subtest\<close>.
\<close>

theorem measurement_fields:
  "\<forall>(t, v)\<in>set (client_measurements (run_messages fs parse ms (measure_socket now))).
     \<exists>c. v = JObj [(''elapsed'', JNum (of_int (t - now) / 1000)),
                   (''app_info'', JObj [(''num_bytes'', JNum (of_nat c))])]
        \<and> field ''subtest'' v = None"
proof -
  obtain pts where cm: "client_measurements (run_messages fs parse ms (measure_socket now))
          = map (\<lambda>(t, c). (t, measurement t (t0 (measure_socket now)) c)) pts"
    using run_shape by blast
  show ?thesis
    unfolding cm by (auto simp: measurement_def measure_socket_def)
qed

text \<open>
  A run in which the server handler throws on the second message: the client
  measurement made on the third message has the two fields, and no \<open>subtest\<close>.
\<close>

theorem measurement_fields_witness:
  "(600, JObj [(''elapsed'', JNum (3 / 5)),
               (''app_info'', JObj [(''num_bytes'', JNum 1500)])])
     \<in> set (client_measurements
         (run_messages
            (\<lambda>k. if k = clientMeasurement then Some (\<lambda>v. True)
                  else if k = serverMeasurement then Some (\<lambda>v. False) else None)
            (\<lambda>str. Some JNull)
            [(Blob 1000, 100), (Text [123, 125], 300), (Blob 500, 600)]
            (measure_socket 0)))
   \<and> (\<exists>c. JObj [(''elapsed'', JNum (3 / 5)),
                (''app_info'', JObj [(''num_bytes'', JNum 1500)])]
          = JObj [(''elapsed'', JNum (of_int (600 - 0) / 1000)),
                  (''app_info'', JObj [(''num_bytes'', JNum (of_nat c))])]
        \<and> field ''subtest''
            (JObj [(''elapsed'', JNum (3 / 5)),
                   (''app_info'', JObj [(''num_bytes'', JNum 1500)])]) = None)"
proof -
  let ?fs = "\<lambda>k. if k = clientMeasurement then Some (\<lambda>v::jsvalue. True)
                  else if k = serverMeasurement then Some (\<lambda>v. False) else None"
  let ?ms = "[(Blob 1000, 100), (Text [123, 125], 300), (Blob 500, 600)]"
  let ?v = "JObj [(''elapsed'', JNum (3 / 5)),
               (''app_info'', JObj [(''num_bytes'', JNum 1500)])]"
  have run: "client_measurements
     (run_messages ?fs (\<lambda>str. Some JNull) ?ms (measure_socket 0)) = [(600, ?v)]"
    by (simp add: client_measurements_def onmessage_def onmessage_count_def emit_def
        measure_socket_def every_def measurement_def
        clientMeasurement_def serverMeasurement_def)
  then have mem: "(600, ?v) \<in> set (client_measurements
     (run_messages ?fs (\<lambda>str. Some JNull) ?ms (measure_socket 0)))"
    by simp
  show ?thesis
    using measurement_fields [of ?fs "\<lambda>str. Some JNull" ?ms 0] mem
    by fastforce
qed


end
